theory Spec2Isabelle
  imports Main
begin

section \<open>The users table of db.py\<close>

text \<open>
  The table created by \<^verbatim>\<open>init_db_command\<close>:
  \<^verbatim>\<open>users(id INTEGER PRIMARY KEY AUTOINCREMENT, name TEXT NOT NULL,
        email TEXT NOT NULL UNIQUE, password TEXT NOT NULL)\<close>.
  A row is a record of its four columns. The rows are kept in the order of the rowid
  B-tree, which is the order in which a \<^verbatim>\<open>SELECT\<close> without \<^verbatim>\<open>ORDER BY\<close>
  reads them. \<open>sqlite_sequence\<close> is the counter SQLite keeps for an
  \<^verbatim>\<open>AUTOINCREMENT\<close> column: the largest rowid the table ever held.
  Python's integers and SQLite's rowids are modelled as \<open>int\<close>; the exhaustion of
  the 64-bit rowid range and failures of the disk are not modelled. A Python string is
  modelled by its UTF-8 encoding, the text SQLite stores: a \<open>string\<close> is a list of
  bytes. A string with a lone surrogate has no such encoding and is not modelled.
\<close>

record user_row =
  row_id :: int
  row_name :: string
  row_email :: string
  row_password :: string

record table =
  rows :: "user_row list"
  sqlite_sequence :: int

text \<open>\<open>None\<close> is a database file without the users table.\<close>

type_synonym database = "table option"

text \<open>The file \<^verbatim>\<open>users.db\<close>: \<open>None\<close> when \<^verbatim>\<open>os.path.exists(DATABASE)\<close> is false.\<close>

type_synonym filesystem = "database option"

datatype sql_error = IntegrityError | OperationalError

subsection \<open>The statements the handlers execute\<close>

text \<open>
  \<^verbatim>\<open>INSERT INTO users (name, email, password) VALUES (?, ?, ?)\<close>.
  The \<^verbatim>\<open>UNIQUE\<close> constraint on email raises \<^verbatim>\<open>sqlite3.IntegrityError\<close> and the
  statement changes nothing. Otherwise the new rowid is one more than the largest rowid
  the table ever held; the result carries \<^verbatim>\<open>cursor.lastrowid\<close>.
\<close>

definition next_rowid :: "table \<Rightarrow> int" where
  "next_rowid t = fold max (map row_id (rows t)) (sqlite_sequence t) + 1"

definition sql_insert_user :: "string \<Rightarrow> string \<Rightarrow> string \<Rightarrow> table \<Rightarrow> sql_error + (int \<times> table)" where
  "sql_insert_user nm em pw t =
     (if list_ex (\<lambda>r. row_email r = em) (rows t) then Inl IntegrityError
      else
        let i = next_rowid t
        in Inr (i, \<lparr>rows = rows t @ [\<lparr>row_id = i, row_name = nm, row_email = em, row_password = pw\<rparr>],
                    sqlite_sequence = i\<rparr>))"

text \<open>\<^verbatim>\<open>SELECT ... FROM users WHERE id = ?\<close> followed by \<^verbatim>\<open>fetchone()\<close>.\<close>

definition select_by_id :: "int \<Rightarrow> table \<Rightarrow> user_row option" where
  "select_by_id i t = find (\<lambda>r. row_id r = i) (rows t)"

text \<open>\<^verbatim>\<open>SELECT id, password FROM users WHERE email = ?\<close> followed by \<^verbatim>\<open>fetchone()\<close>.\<close>

definition select_by_email :: "string \<Rightarrow> table \<Rightarrow> user_row option" where
  "select_by_email em t = find (\<lambda>r. row_email r = em) (rows t)"

text \<open>
  \<^verbatim>\<open>UPDATE users SET <fields> WHERE id = ?\<close>, the fields being the pairs of a column
  and its new value that \<^verbatim>\<open>update_user\<close> collected. The statement raises
  \<^verbatim>\<open>IntegrityError\<close>, changing nothing, when a row it rewrites would get the email of
  another row. Its \<^verbatim>\<open>rowcount\<close> is the number of rows the \<^verbatim>\<open>WHERE\<close> clause
  selected: SQLite counts a row it rewrote whether or not the new values differ from the
  old ones.
\<close>

fun assign :: "string \<times> string \<Rightarrow> user_row \<Rightarrow> user_row" where
  "assign (col, v) r =
     (if col = ''name'' then r\<lparr>row_name := v\<rparr>
      else if col = ''email'' then r\<lparr>row_email := v\<rparr>
      else r)"

definition sql_update_user :: "(string \<times> string) list \<Rightarrow> int \<Rightarrow> table \<Rightarrow> sql_error + (nat \<times> table)" where
  "sql_update_user update_fields i t =
     (if list_ex (\<lambda>r. row_id r = i \<and>
            list_ex (\<lambda>r'. row_id r' \<noteq> i \<and> row_email r' = row_email (fold assign update_fields r)) (rows t))
          (rows t)
      then Inl IntegrityError
      else Inr (length (filter (\<lambda>r. row_id r = i) (rows t)),
                t\<lparr>rows := map (\<lambda>r. if row_id r = i then fold assign update_fields r else r) (rows t)\<rparr>))"

text \<open>\<^verbatim>\<open>DELETE FROM users WHERE id = ?\<close>, with its \<^verbatim>\<open>rowcount\<close>.\<close>

definition sql_delete_user :: "int \<Rightarrow> table \<Rightarrow> nat \<times> table" where
  "sql_delete_user i t =
     (length (filter (\<lambda>r. row_id r = i) (rows t)),
      t\<lparr>rows := filter (\<lambda>r. row_id r \<noteq> i) (rows t)\<rparr>)"

text \<open>
  SQLite's \<^verbatim>\<open>LIKE\<close>, as its function \<^verbatim>\<open>patternCompare\<close> computes it on the UTF-8
  text of the pattern and of the column. Both are read one character at a time, as
  \<^verbatim>\<open>sqlite3Utf8Read\<close> does: a byte from \<^verbatim>\<open>0xC0\<close> on takes the continuation bytes
  (\<^verbatim>\<open>0x80\<close> to \<^verbatim>\<open>0xBF\<close>) that follow it, and reading ends at the first NUL byte, so
  what follows a NUL takes no part in the match. \<^verbatim>\<open>%\<close> matches any run of
  characters, \<^verbatim>\<open>_\<close> matches one character, any other character matches itself, the
  ASCII letters without regard to case (SQLite folds them through its table
  \<^verbatim>\<open>sqlite3UpperToLower\<close>, which leaves every other byte as it is). The statement of
  \<^verbatim>\<open>search_users\<close> has no \<^verbatim>\<open>ESCAPE\<close> clause.
\<close>

definition sqlite3UpperToLower :: "char \<Rightarrow> char" where
  "sqlite3UpperToLower c =
     (case map_of (zip ''ABCDEFGHIJKLMNOPQRSTUVWXYZ'' ''abcdefghijklmnopqrstuvwxyz'') c of
        Some l \<Rightarrow> l
      | None \<Rightarrow> c)"

definition utf8_lead :: "char \<Rightarrow> bool" where
  "utf8_lead c = ((192::nat) \<le> of_char c)"

definition utf8_continuation :: "char \<Rightarrow> bool" where
  "utf8_continuation c = ((128::nat) \<le> of_char c \<and> of_char c < (192::nat))"

function utf8_chars :: "string \<Rightarrow> string list" where
  "utf8_chars [] = []"
| "utf8_chars (c # cs) =
     (if c = CHR 0x00 then []
      else if utf8_lead c
      then (c # takeWhile utf8_continuation cs) # utf8_chars (dropWhile utf8_continuation cs)
      else [c] # utf8_chars cs)"
  by pat_completeness auto
termination
  by (relation "measure length") (auto simp: less_Suc_eq_le length_dropWhile_le)

definition like_char_eq :: "string \<Rightarrow> string \<Rightarrow> bool" where
  "like_char_eq p c =
     (p = c \<or>
      (case (p, c) of
         ([a], [b]) \<Rightarrow> sqlite3UpperToLower a = sqlite3UpperToLower b
       | _ \<Rightarrow> False))"

fun patternCompare :: "string list \<Rightarrow> string list \<Rightarrow> bool" where
  "patternCompare [] s = (s = [])"
| "patternCompare (p # ps) [] = (p = ''%'' \<and> patternCompare ps [])"
| "patternCompare (p # ps) (c # cs) =
     (if p = ''%'' then patternCompare ps (c # cs) \<or> patternCompare (p # ps) cs
      else (p = ''_'' \<or> like_char_eq p c) \<and> patternCompare ps cs)"

definition sql_like :: "string \<Rightarrow> string \<Rightarrow> bool" where
  "sql_like pattern s = patternCompare (utf8_chars pattern) (utf8_chars s)"

text \<open>
  SQLite refuses a pattern of more than 50000 bytes
  (\<^verbatim>\<open>SQLITE_MAX_LIKE_PATTERN_LENGTH\<close>): evaluating \<^verbatim>\<open>LIKE\<close> for a row then raises
  \<^verbatim>\<open>sqlite3.OperationalError\<close>. On a table without rows it is never evaluated.
\<close>

definition like_pattern_too_complex :: "string \<Rightarrow> bool" where
  "like_pattern_too_complex pattern = (50000 < length pattern)"

section \<open>Requests and responses\<close>

text \<open>
  A response is the pair a handler returns: the body given to \<^verbatim>\<open>jsonify\<close> and the
  status. The handlers give \<^verbatim>\<open>jsonify\<close> a dictionary or a list of dictionaries, whose
  values are integers and strings. When a handler raises an exception it does not catch,
  Flask answers 500 with its own error page, which is no JSON: \<open>ServerErrorPage\<close>.
\<close>

datatype jval = JInt int | JStr string

type_synonym jobj = "(string \<times> jval) list"

datatype body = Obj jobj | Arr "jobj list" | ServerErrorPage

type_synonym response = "body \<times> nat"

text \<open>
  The result of \<^verbatim>\<open>request.get_json()\<close> as \<^verbatim>\<open>create_user\<close> and \<^verbatim>\<open>update_user\<close> read
  it: \<open>None\<close> for Python's \<^verbatim>\<open>None\<close>, otherwise a dictionary, here with string values.
  \<^verbatim>\<open>data.get(k)\<close> is \<open>map_of data k\<close>.
\<close>

type_synonym json_request = "(string \<times> string) list option"

text \<open>Python's truth value of what \<^verbatim>\<open>data.get\<close> returned: \<^verbatim>\<open>None\<close> and \<^verbatim>\<open>""\<close> are false.\<close>

fun truthy :: "string option \<Rightarrow> bool" where
  "truthy None = False"
| "truthy (Some s) = (s \<noteq> [])"

text \<open>
  \<^verbatim>\<open>login\<close> hands the password of the body to \<^verbatim>\<open>check_password_hash\<close> whatever its
  JSON type is, so for \<^verbatim>\<open>login\<close> a value of the body is a string or an integer
  (the other JSON types are left out). An integer is true when it is not 0.
\<close>

datatype json_value = JString string | JNumber int

type_synonym login_request = "(string \<times> json_value) list option"

fun value_truthy :: "json_value \<Rightarrow> bool" where
  "value_truthy (JString s) = (s \<noteq> [])"
| "value_truthy (JNumber n) = (n \<noteq> 0)"

datatype py_exception = AttributeError | UnicodeEncodeError | OverflowError

definition message :: "string \<Rightarrow> body" where
  "message m = Obj [(''message'', JStr m)]"

text \<open>\<^verbatim>\<open>dict(user)\<close> for a row of \<^verbatim>\<open>SELECT id, name, email\<close>.\<close>

definition row_dict :: "user_row \<Rightarrow> jobj" where
  "row_dict r = [(''id'', JInt (row_id r)), (''name'', JStr (row_name r)), (''email'', JStr (row_email r))]"

text \<open>The keys of all dictionaries of a body.\<close>

fun body_keys :: "body \<Rightarrow> string list" where
  "body_keys (Obj d) = map fst d"
| "body_keys (Arr ds) = concat (map (map fst) ds)"
| "body_keys ServerErrorPage = []"

section \<open>The handlers of app.py\<close>

text \<open>
  Each handler takes the table as the request finds it and, when it writes, returns the
  table it leaves. \<^verbatim>\<open>generate_password_hash\<close> and \<^verbatim>\<open>check_password_hash\<close> belong to
  werkzeug: they are parameters, \<open>gph salt password\<close> with the salt the call draws, and
  \<open>cph pwhash password\<close>, which returns a truth value or raises (it encodes the
  password, which a value that is no string, or a string without a UTF-8 encoding, does
  not allow).
\<close>

definition home :: response where
  "home = (message ''Welcome to the User Management System API'', 200)"

definition get_all_users :: "table \<Rightarrow> response" where
  "get_all_users t = (Arr (map row_dict (rows t)), 200)"

definition get_user :: "int \<Rightarrow> table \<Rightarrow> response" where
  "get_user user_id t =
     (case select_by_id user_id t of
        Some user \<Rightarrow> (Obj (row_dict user), 200)
      | None \<Rightarrow> (message ''User not found'', 404))"

definition create_user ::
  "(string \<Rightarrow> string \<Rightarrow> string) \<Rightarrow> string \<Rightarrow> json_request \<Rightarrow> table \<Rightarrow> response \<times> table" where
  "create_user gph salt data t =
     (case data of
        None \<Rightarrow> ((message ''Invalid JSON'', 400), t)
      | Some d \<Rightarrow>
          if d = [] then ((message ''Invalid JSON'', 400), t)
          else
            (case (map_of d ''name'', map_of d ''email'', map_of d ''password'') of
               (Some nm, Some em, Some pw) \<Rightarrow>
                 if nm = [] \<or> em = [] \<or> pw = []
                 then ((message ''Missing name, email, or password'', 400), t)
                 else
                   (case sql_insert_user nm em (gph salt pw) t of
                      Inr (lastrowid, t') \<Rightarrow>
                        ((Obj [(''message'', JStr ''User created successfully!''),
                               (''user_id'', JInt lastrowid)], 201), t')
                    | Inl IntegrityError \<Rightarrow>
                        ((message ''User with this email already exists'', 409), t)
                    | Inl OperationalError \<Rightarrow>
                        ((message ''An internal server error occurred'', 500), t))
             | _ \<Rightarrow> ((message ''Missing name, email, or password'', 400), t)))"

text \<open>The entry \<^verbatim>\<open>update_user\<close> appends to \<^verbatim>\<open>update_fields\<close> for a value that is true.\<close>

fun set_field :: "string \<Rightarrow> string option \<Rightarrow> (string \<times> string) list" where
  "set_field col None = []"
| "set_field col (Some v) = (if v = [] then [] else [(col, v)])"

definition update_user :: "int \<Rightarrow> json_request \<Rightarrow> table \<Rightarrow> response \<times> table" where
  "update_user user_id data t =
     (case data of
        None \<Rightarrow> ((message ''Invalid JSON'', 400), t)
      | Some d \<Rightarrow>
          if d = [] then ((message ''Invalid JSON'', 400), t)
          else
            let nm = map_of d ''name''; em = map_of d ''email''
            in if \<not> (truthy nm \<or> truthy em)
               then ((message ''No data provided for update'', 400), t)
               else
                 let update_fields = set_field ''name'' nm @ set_field ''email'' em
                 in if update_fields = []
                    then ((message ''No valid fields to update'', 400), t)
                    else
                      (case sql_update_user update_fields user_id t of
                         Inr (rowcount, t') \<Rightarrow>
                           if rowcount = 0 then
                             (case select_by_id user_id t' of
                                None \<Rightarrow> ((message ''User not found'', 404), t')
                              | Some u \<Rightarrow>
                                  ((message ''User found but no changes made (data was identical)'', 200), t'))
                           else ((message ''User updated successfully'', 200), t')
                       | Inl IntegrityError \<Rightarrow>
                           ((message ''User with this email already exists'', 409), t)
                       | Inl OperationalError \<Rightarrow>
                           ((message ''An internal server error occurred'', 500), t)))"

definition delete_user :: "int \<Rightarrow> table \<Rightarrow> response \<times> table" where
  "delete_user user_id t =
     (case sql_delete_user user_id t of
        (rowcount, t') \<Rightarrow>
          if rowcount = 0 then ((message ''User not found'', 404), t')
          else ((message ''User deleted successfully'', 200), t'))"

text \<open>\<open>q\<close> is \<^verbatim>\<open>request.args.get('name')\<close>.\<close>

definition search_users :: "string option \<Rightarrow> table \<Rightarrow> response" where
  "search_users q t =
     (case q of
        None \<Rightarrow> (message ''Please provide a 'name' query parameter to search'', 400)
      | Some nm \<Rightarrow>
          if nm = [] then (message ''Please provide a 'name' query parameter to search'', 400)
          else
            let search_pattern = ''%'' @ nm @ ''%''
            in if rows t \<noteq> [] \<and> like_pattern_too_complex search_pattern
               then (ServerErrorPage, 500)
               else (Arr (map row_dict (filter (\<lambda>r. sql_like search_pattern (row_name r)) (rows t))), 200))"

text \<open>
  The value \<^verbatim>\<open>login\<close> binds to \<^verbatim>\<open>WHERE email = ?\<close>, as the text SQLite compares
  with the column: a string as it is, an integer (which must fit 64 bits, or the binding
  raises \<^verbatim>\<open>OverflowError\<close>) in decimal, since the column has the affinity
  \<^verbatim>\<open>TEXT\<close>.
\<close>

definition decimal_digit :: "int \<Rightarrow> char" where
  "decimal_digit d = ''0123456789'' ! nat d"

function decimal_digits :: "int \<Rightarrow> string" where
  "decimal_digits n =
     (if n < 10 then [decimal_digit n]
      else decimal_digits (n div 10) @ [decimal_digit (n mod 10)])"
  by pat_completeness auto
termination
  by (relation "measure nat") auto

definition decimal :: "int \<Rightarrow> string" where
  "decimal i = (if i < 0 then CHR ''-'' # decimal_digits (- i) else decimal_digits i)"

definition bind_email :: "json_value \<Rightarrow> py_exception + string" where
  "bind_email v =
     (case v of
        JString s \<Rightarrow> Inr s
      | JNumber n \<Rightarrow>
          if - (2 ^ 63) \<le> n \<and> n < 2 ^ 63 then Inr (decimal n) else Inl OverflowError)"

text \<open>
  \<^verbatim>\<open>login\<close> has no \<^verbatim>\<open>try\<close>: an exception of the binding or of
  \<^verbatim>\<open>check_password_hash\<close> leaves the handler. \<^verbatim>\<open>check_password_hash\<close> is called
  only when a row was found (\<^verbatim>\<open>user and ...\<close>).
\<close>

definition login ::
  "(string \<Rightarrow> json_value \<Rightarrow> py_exception + bool) \<Rightarrow> login_request \<Rightarrow> table \<Rightarrow> response" where
  "login cph data t =
     (case data of
        None \<Rightarrow> (message ''Invalid JSON'', 400)
      | Some d \<Rightarrow>
          if d = [] then (message ''Invalid JSON'', 400)
          else
            (case (map_of d ''email'', map_of d ''password'') of
               (Some email, Some password) \<Rightarrow>
                 if \<not> (value_truthy email \<and> value_truthy password)
                 then (message ''Missing email or password'', 400)
                 else
                   (case bind_email email of
                      Inl e \<Rightarrow> (ServerErrorPage, 500)
                    | Inr em \<Rightarrow>
                        (case select_by_email em t of
                           None \<Rightarrow>
                             (Obj [(''status'', JStr ''failed''), (''message'', JStr ''Invalid credentials'')], 401)
                         | Some user \<Rightarrow>
                             (case cph (row_password user) password of
                                Inl e \<Rightarrow> (ServerErrorPage, 500)
                              | Inr True \<Rightarrow>
                                  (Obj [(''status'', JStr ''success''), (''user_id'', JInt (row_id user))], 200)
                              | Inr False \<Rightarrow>
                                  (Obj [(''status'', JStr ''failed''), (''message'', JStr ''Invalid credentials'')], 401))))
             | _ \<Rightarrow> (message ''Missing email or password'', 400)))"

section \<open>The bootstrap of db.py and init_db.py\<close>

text \<open>
  \<^verbatim>\<open>init_db_command\<close> step by step: it removes the database file when there is one,
  connects (which creates an empty database when the file is absent), creates the table
  when the database has none, and inserts the three sample users when the table has no
  row. An exception of an insert leaves the function, so the result is a sum. The three
  salts are those the three calls of \<^verbatim>\<open>generate_password_hash\<close> draw.
\<close>

definition os_remove_if_exists :: "filesystem \<Rightarrow> filesystem" where
  "os_remove_if_exists fs = (if fs \<noteq> None then None else fs)"

definition sqlite3_connect :: "filesystem \<Rightarrow> database" where
  "sqlite3_connect fs = (case fs of None \<Rightarrow> None | Some db \<Rightarrow> db)"

definition create_table_if_not_exists :: "database \<Rightarrow> table" where
  "create_table_if_not_exists db =
     (case db of None \<Rightarrow> \<lparr>rows = [], sqlite_sequence = 0\<rparr> | Some t \<Rightarrow> t)"

definition init_db_command ::
  "(string \<Rightarrow> string \<Rightarrow> string) \<Rightarrow> string \<times> string \<times> string \<Rightarrow> filesystem \<Rightarrow> sql_error + filesystem" where
  "init_db_command gph salts fs =
     (case salts of
        (s1, s2, s3) \<Rightarrow>
          let conn = sqlite3_connect (os_remove_if_exists fs);
              t0 = create_table_if_not_exists conn
          in if length (rows t0) = 0 then
               (case sql_insert_user ''John Doe'' ''john@example.com'' (gph s1 ''password123'') t0 of
                  Inl e \<Rightarrow> Inl e
                | Inr (i1, t1) \<Rightarrow>
                    (case sql_insert_user ''Jane Smith'' ''jane@example.com'' (gph s2 ''secret456'') t1 of
                       Inl e \<Rightarrow> Inl e
                     | Inr (i2, t2) \<Rightarrow>
                         (case sql_insert_user ''Bob Johnson'' ''bob@example.com'' (gph s3 ''qwerty789'') t2 of
                            Inl e \<Rightarrow> Inl e
                          | Inr (i3, t3) \<Rightarrow> Inr (Some (Some t3)))))
             else Inr (Some (Some t0)))"

text \<open>The script init_db.py removes the file itself, then calls \<^verbatim>\<open>init_db_command\<close>.\<close>

definition init_db ::
  "(string \<Rightarrow> string \<Rightarrow> string) \<Rightarrow> string \<times> string \<times> string \<Rightarrow> filesystem \<Rightarrow> sql_error + filesystem" where
  "init_db gph salts fs = init_db_command gph salts (os_remove_if_exists fs)"

text \<open>The table the bootstrap leaves, written out.\<close>

definition seeded :: "(string \<Rightarrow> string \<Rightarrow> string) \<Rightarrow> string \<times> string \<times> string \<Rightarrow> table" where
  "seeded gph salts =
     (case salts of
        (s1, s2, s3) \<Rightarrow>
          \<lparr>rows =
             [\<lparr>row_id = 1, row_name = ''John Doe'', row_email = ''john@example.com'',
               row_password = gph s1 ''password123''\<rparr>,
              \<lparr>row_id = 2, row_name = ''Jane Smith'', row_email = ''jane@example.com'',
               row_password = gph s2 ''secret456''\<rparr>,
              \<lparr>row_id = 3, row_name = ''Bob Johnson'', row_email = ''bob@example.com'',
               row_password = gph s3 ''qwerty789''\<rparr>],
           sqlite_sequence = 3\<rparr>)"

section \<open>The states the table can reach\<close>

text \<open>
  What the schema promises of a table: the rowids ascend strictly along the B-tree and
  none exceeds the sequence counter, no two rows share an email, and (from the handlers'
  checks) no name and no email is empty.
\<close>

definition table_inv :: "table \<Rightarrow> bool" where
  "table_inv t =
     (sorted_wrt (<) (map row_id (rows t)) \<and>
      list_all (\<lambda>r. row_id r \<le> sqlite_sequence t) (rows t) \<and>
      distinct (map row_email (rows t)) \<and>
      list_all (\<lambda>r. row_name r \<noteq> [] \<and> row_email r \<noteq> []) (rows t))"

text \<open>
  A table is reachable when a bootstrap produced it or a writing handler left it, for
  any request. The handlers that only read leave the table as it is.
\<close>

inductive reachable :: "(string \<Rightarrow> string \<Rightarrow> string) \<Rightarrow> table \<Rightarrow> bool"
  for gph :: "string \<Rightarrow> string \<Rightarrow> string" where
  boot: "init_db_command gph salts fs = Inr (Some (Some t)) \<Longrightarrow> reachable gph t"
| created: "reachable gph t \<Longrightarrow> create_user gph salt data t = (resp, t') \<Longrightarrow> reachable gph t'"
| updated: "reachable gph t \<Longrightarrow> update_user user_id data t = (resp, t') \<Longrightarrow> reachable gph t'"
| deleted: "reachable gph t \<Longrightarrow> delete_user user_id t = (resp, t') \<Longrightarrow> reachable gph t'"

section \<open>A concrete instance\<close>

text \<open>
  Stand-ins for werkzeug's two functions and concrete tables, for the theorems that
  evaluate the handlers at an explicit input. As werkzeug's function does,
  \<open>sample_check\<close> raises \<^verbatim>\<open>AttributeError\<close> for a password that is no string.
  \<open>sample_table\<close> is the table the bootstrap leaves with these;
  \<open>sample_table_ann\<close> is that table after one more user was created;
  \<open>sample_table_nul\<close> is the table after the bootstrap, the creation of a user whose
  name is the one character NUL, and the deletion of the three sample users.
\<close>

definition sample_hash :: "string \<Rightarrow> string \<Rightarrow> string" where
  "sample_hash salt pw = salt @ ''$'' @ pw"

fun sample_check :: "string \<Rightarrow> json_value \<Rightarrow> py_exception + bool" where
  "sample_check pwhash (JString pw) = Inr (dropWhile (\<lambda>c. c \<noteq> CHR ''$'') pwhash = ''$'' @ pw)"
| "sample_check pwhash (JNumber n) = Inl AttributeError"

definition sample_salts :: "string \<times> string \<times> string" where
  "sample_salts = (''a1'', ''b2'', ''c3'')"

definition sample_table :: table where
  "sample_table = seeded sample_hash sample_salts"

definition ann_request :: json_request where
  "ann_request = Some [(''name'', ''Ann Lee''), (''email'', ''ann@example.com''), (''password'', ''hunter2'')]"

definition sample_table_ann :: table where
  "sample_table_ann =
     \<lparr>rows = rows sample_table @
        [\<lparr>row_id = 4, row_name = ''Ann Lee'', row_email = ''ann@example.com'',
          row_password = sample_hash ''d4'' ''hunter2''\<rparr>],
      sqlite_sequence = 4\<rparr>"

definition nul_request :: json_request where
  "nul_request = Some [(''name'', [CHR 0x00]), (''email'', ''nul@example.com''), (''password'', ''hunter2'')]"

definition sample_table_nul :: table where
  "sample_table_nul =
     \<lparr>rows =
        [\<lparr>row_id = 4, row_name = [CHR 0x00], row_email = ''nul@example.com'',
          row_password = sample_hash ''d4'' ''hunter2''\<rparr>],
      sqlite_sequence = 4\<rparr>"

section \<open>Facts about the statements\<close>

subsection \<open>The next rowid is new\<close>

lemma fold_max_ge_init: "s \<le> fold max xs (s::int)"
proof (induction xs arbitrary: s)
  case Nil
  then show ?case by simp
next
  case (Cons y ys)
  have "s \<le> max y s" by simp
  also have "max y s \<le> fold max ys (max y s)" by (rule Cons.IH)
  finally show ?case by simp
qed

lemma fold_max_ge_mem: "x \<in> set xs \<Longrightarrow> x \<le> fold max xs (s::int)"
proof (induction xs arbitrary: s)
  case Nil
  then show ?case by simp
next
  case (Cons y ys)
  show ?case
  proof (cases "x = y")
    case True
    have "max y s \<le> fold max ys (max y s)" by (rule fold_max_ge_init)
    with True show ?thesis by simp
  next
    case False
    with Cons show ?thesis by simp
  qed
qed

lemma next_rowid_gt_row: "r \<in> set (rows t) \<Longrightarrow> row_id r < next_rowid t"
  using fold_max_ge_mem [of "row_id r" "map row_id (rows t)" "sqlite_sequence t"]
  by (simp add: next_rowid_def)

lemma next_rowid_gt_seq: "sqlite_sequence t < next_rowid t"
  using fold_max_ge_init [of "sqlite_sequence t" "map row_id (rows t)"]
  by (simp add: next_rowid_def)

lemma init_db_command_seeded:
  "init_db_command gph (s1, s2, s3) fs = Inr (Some (Some (seeded gph (s1, s2, s3))))"
  by (simp add: init_db_command_def seeded_def sql_insert_user_def next_rowid_def
      os_remove_if_exists_def sqlite3_connect_def create_table_if_not_exists_def)

lemma table_inv_seeded: "table_inv (seeded gph salts)"
  by (cases salts) (simp add: table_inv_def seeded_def)

lemma table_inv_insert:
  assumes "table_inv t" "nm \<noteq> []" "em \<noteq> []" "sql_insert_user nm em pw t = Inr (i, t')"
  shows "table_inv t'"
proof -
  from assms(4) have no: "\<not> list_ex (\<lambda>r. row_email r = em) (rows t)"
    and t': "t' = \<lparr>rows = rows t @ [\<lparr>row_id = next_rowid t, row_name = nm, row_email = em, row_password = pw\<rparr>],
                    sqlite_sequence = next_rowid t\<rparr>"
    by (auto simp: sql_insert_user_def Let_def split: if_splits)
  have lt: "\<forall>r\<in>set (rows t). row_id r < next_rowid t"
    using next_rowid_gt_row by blast
  have "sorted_wrt (<) (map row_id (rows t'))"
    using assms(1) lt by (simp add: t' table_inv_def sorted_wrt_append)
  moreover have "list_all (\<lambda>r. row_id r \<le> sqlite_sequence t') (rows t')"
    using lt by (auto simp: t' list_all_iff intro: less_imp_le)
  moreover have "distinct (map row_email (rows t'))"
    using assms(1) no by (auto simp: t' table_inv_def list_ex_iff)
  moreover have "list_all (\<lambda>r. row_name r \<noteq> [] \<and> row_email r \<noteq> []) (rows t')"
    using assms(1-3) by (simp add: t' table_inv_def)
  ultimately show ?thesis by (simp add: table_inv_def)
qed

lemma row_id_assign: "row_id (assign f r) = row_id r"
  by (cases f) simp

lemma row_id_fold_assign: "row_id (fold assign fs r) = row_id r"
  by (induction fs arbitrary: r) (simp_all add: row_id_assign)

lemma nonempty_assign:
  "snd f \<noteq> [] \<Longrightarrow> row_name r \<noteq> [] \<and> row_email r \<noteq> [] \<Longrightarrow>
   row_name (assign f r) \<noteq> [] \<and> row_email (assign f r) \<noteq> []"
  by (cases f) simp

lemma nonempty_fold_assign:
  "list_all (\<lambda>f. snd f \<noteq> []) fs \<Longrightarrow> row_name r \<noteq> [] \<and> row_email r \<noteq> [] \<Longrightarrow>
   row_name (fold assign fs r) \<noteq> [] \<and> row_email (fold assign fs r) \<noteq> []"
proof (induction fs arbitrary: r)
  case Nil
  then show ?case by simp
next
  case (Cons f fs)
  from Cons.prems have "snd f \<noteq> []" and rest: "list_all (\<lambda>f. snd f \<noteq> []) fs" by simp_all
  with Cons.prems(2) have "row_name (assign f r) \<noteq> [] \<and> row_email (assign f r) \<noteq> []"
    by (intro nonempty_assign)
  from Cons.IH [OF rest this] show ?case by simp
qed

lemma table_inv_delete: "table_inv t \<Longrightarrow> table_inv (snd (sql_delete_user i t))"
  unfolding table_inv_def sql_delete_user_def
  by (simp add: sorted_wrt_map sorted_wrt_filter distinct_map_filter list_all_iff)

subsection \<open>Every reachable table satisfies the schema\<close>

lemma table_inv_update:
  assumes inv: "table_inv t" and ne: "list_all (\<lambda>f. snd f \<noteq> []) fs"
    and upd: "sql_update_user fs i t = Inr (n, t')"
  shows "table_inv t'"
proof -
  let ?f = "\<lambda>r. if row_id r = i then fold assign fs r else r"
  from upd have noconf: "\<not> list_ex (\<lambda>r. row_id r = i \<and>
            list_ex (\<lambda>r'. row_id r' \<noteq> i \<and> row_email r' = row_email (fold assign fs r)) (rows t)) (rows t)"
    and t': "t' = t\<lparr>rows := map ?f (rows t)\<rparr>"
    by (auto simp: sql_update_user_def split: if_splits)
  have ids: "map row_id (rows t') = map row_id (rows t)"
    by (simp add: t' row_id_fold_assign)
  have idf: "\<And>r. row_id (?f r) = row_id r" by (simp add: row_id_fold_assign)
  have s: "sorted_wrt (<) (map row_id (rows t'))"
    using inv by (simp add: ids table_inv_def)
  have b: "list_all (\<lambda>r. row_id r \<le> sqlite_sequence t') (rows t')"
    using inv by (auto simp: t' table_inv_def list_all_iff row_id_fold_assign)
  have n: "list_all (\<lambda>r. row_name r \<noteq> [] \<and> row_email r \<noteq> []) (rows t')"
    using inv nonempty_fold_assign [OF ne] by (auto simp: t' table_inv_def list_all_iff)
  have dids: "distinct (map row_id (rows t))"
    using inv strict_sorted_iff [of "map row_id (rows t)"] by (simp add: table_inv_def)
  have dem: "distinct (map row_email (rows t))"
    using inv by (simp add: table_inv_def)
  have nc: "\<And>r r'. r \<in> set (rows t) \<Longrightarrow> r' \<in> set (rows t) \<Longrightarrow> row_id r = i \<Longrightarrow> row_id r' \<noteq> i
      \<Longrightarrow> row_email r' \<noteq> row_email (fold assign fs r)"
    using noconf unfolding list_ex_iff by blast
  have ii: "inj_on row_id (set (rows t))" using dids by (simp add: distinct_map)
  have ie: "inj_on row_email (set (rows t))" using dem by (simp add: distinct_map)
  have inj: "inj_on (\<lambda>r. row_email (?f r)) (set (rows t))"
  proof (rule inj_onI)
    fix x y assume x: "x \<in> set (rows t)" and y: "y \<in> set (rows t)"
      and e: "row_email (?f x) = row_email (?f y)"
    show "x = y"
    proof (cases "row_id x = i")
      case xi: True
      show ?thesis
      proof (cases "row_id y = i")
        case True
        with xi x y ii show ?thesis by (auto dest: inj_onD)
      next
        case False
        with xi x y e nc [of x y] show ?thesis by simp
      qed
    next
      case xi: False
      show ?thesis
      proof (cases "row_id y = i")
        case True
        with xi x y e nc [of y x] show ?thesis by simp
      next
        case False
        with xi x y e ie show ?thesis by (auto dest: inj_onD)
      qed
    qed
  qed
  have "distinct (rows t)" using dem by (simp add: distinct_map)
  with inj have d: "distinct (map row_email (rows t'))"
    by (simp add: t' distinct_map comp_def)
  from s b d n show ?thesis by (simp add: table_inv_def)
qed

lemma set_field_nonempty: "list_all (\<lambda>f. snd f \<noteq> []) (set_field col v)"
  by (cases v) simp_all

lemma table_inv_create_user:
  assumes "table_inv t" "create_user gph salt data t = (resp, t')"
  shows "table_inv t'"
  using assms
  by (auto simp: create_user_def split: option.splits if_splits sum.splits sql_error.splits
      intro: table_inv_insert)

lemma table_inv_update_user:
  assumes "table_inv t" "update_user user_id data t = (resp, t')"
  shows "table_inv t'"
proof -
  have ne: "list_all (\<lambda>f. snd f \<noteq> []) (set_field ''name'' nm @ set_field ''email'' em)" for nm em
    by (simp add: set_field_nonempty)
  show ?thesis
    using assms table_inv_update [OF assms(1) ne]
    by (auto simp: update_user_def Let_def split: option.splits if_splits sum.splits sql_error.splits)
qed

lemma table_inv_delete_user:
  assumes "table_inv t" "delete_user user_id t = (resp, t')"
  shows "table_inv t'"
  using assms table_inv_delete [of t user_id]
  by (auto simp: delete_user_def split: prod.splits if_splits)

lemma reachable_table_inv: "reachable gph t \<Longrightarrow> table_inv t"
proof (induction rule: reachable.induct)
  case (boot salts fs t)
  then show ?case
    using table_inv_seeded [of gph salts]
    by (cases salts) (auto simp: init_db_command_seeded)
qed (auto intro: table_inv_create_user table_inv_update_user table_inv_delete_user)

section \<open>Facts about the concrete instance\<close>


lemma sample_table_eval:
  "sample_table =
     \<lparr>rows =
        [\<lparr>row_id = 1, row_name = ''John Doe'', row_email = ''john@example.com'',
          row_password = ''a1$password123''\<rparr>,
         \<lparr>row_id = 2, row_name = ''Jane Smith'', row_email = ''jane@example.com'',
          row_password = ''b2$secret456''\<rparr>,
         \<lparr>row_id = 3, row_name = ''Bob Johnson'', row_email = ''bob@example.com'',
          row_password = ''c3$qwerty789''\<rparr>],
      sqlite_sequence = 3\<rparr>"
  by (simp add: sample_table_def seeded_def sample_salts_def sample_hash_def)

lemma reachable_sample_table: "reachable sample_hash sample_table"
  unfolding sample_table_def sample_salts_def
  by (rule reachable.boot [where fs = None]) (rule init_db_command_seeded)

section \<open>The reading handlers never return the password\<close>

lemma keys_row_dict: "map fst (row_dict r) = [''id'', ''name'', ''email'']"
  by (simp add: row_dict_def)

lemma body_keys_rows:
  assumes "k \<in> set (body_keys (Arr (map row_dict rs)))"
  shows "k = ''id'' \<or> k = ''name'' \<or> k = ''email''"
proof -
  from assms obtain r where "k \<in> set (map fst (row_dict r))"
    by auto
  then show ?thesis
    unfolding keys_row_dict by simp
qed

lemma body_keys_message:
  assumes "k \<in> set (body_keys (message m))"
  shows "k = ''message''"
  using assms by (simp add: message_def)

lemma get_all_users_keys:
  assumes "k \<in> set (body_keys (fst (get_all_users t)))"
  shows "k = ''id'' \<or> k = ''name'' \<or> k = ''email''"
  using assms body_keys_rows [of k "rows t"] by (simp add: get_all_users_def)

lemma get_user_keys:
  assumes "k \<in> set (body_keys (fst (get_user user_id t)))"
  shows "k = ''id'' \<or> k = ''name'' \<or> k = ''email'' \<or> k = ''message''"
proof (cases "select_by_id user_id t")
  case None
  with assms body_keys_message [of k] show ?thesis by (simp add: get_user_def)
next
  case (Some u)
  with assms have "k \<in> set (map fst (row_dict u))" by (simp add: get_user_def)
  then have "k = ''id'' \<or> k = ''name'' \<or> k = ''email''" unfolding keys_row_dict by simp
  then show ?thesis by blast
qed

lemma search_users_keys:
  assumes "k \<in> set (body_keys (fst (search_users q t)))"
  shows "k = ''id'' \<or> k = ''name'' \<or> k = ''email'' \<or> k = ''message''"
proof (cases "truthy q")
  case False
  then have "fst (search_users q t) = message ''Please provide a 'name' query parameter to search''"
    by (cases q) (simp_all add: search_users_def)
  with assms body_keys_message [of k] show ?thesis by simp
next
  case True
  then obtain nm where q: "q = Some nm" and nm: "nm \<noteq> []" by (cases q) simp_all
  show ?thesis
  proof (cases "rows t \<noteq> [] \<and> like_pattern_too_complex (''%'' @ nm @ ''%'')")
    case True
    then have "fst (search_users q t) = ServerErrorPage"
      using nm by (simp add: search_users_def q)
    with assms show ?thesis by simp
  next
    case False
    then have "fst (search_users q t) =
        Arr (map row_dict (filter (\<lambda>r. sql_like (''%'' @ nm @ ''%'') (row_name r)) (rows t)))"
      using nm by (auto simp: search_users_def q)
    with assms have "k \<in> set (body_keys (Arr (map row_dict
        (filter (\<lambda>r. sql_like (''%'' @ nm @ ''%'') (row_name r)) (rows t)))))"
      by (simp only:)
    then have "k = ''id'' \<or> k = ''name'' \<or> k = ''email''" by (rule body_keys_rows)
    then show ?thesis by blast
  qed
qed

lemma password_not_a_key:
  "''password'' \<noteq> ''id''" "''password'' \<noteq> ''name''" "''password'' \<noteq> ''email''"
  "''password'' \<noteq> ''message''"
  "''password_hash'' \<noteq> ''id''" "''password_hash'' \<noteq> ''name''" "''password_hash'' \<noteq> ''email''"
  "''password_hash'' \<noteq> ''message''"
  by simp_all

text \<open>
  Claim C1. For every table, reachable or not, and every request to one of the three
  reading handlers (\<^verbatim>\<open>GET /users\<close>, \<^verbatim>\<open>GET /user/<id>\<close>, \<^verbatim>\<open>GET /search\<close>), no
  dictionary of the response body has a key for the password: neither
  \<open>password\<close>, the column's name in the code, nor \<open>password_hash\<close>, the
  specification's name for it. The keys are those of the columns the statements select
  (\<open>id\<close>, \<open>name\<close>, \<open>email\<close>) or \<open>message\<close>.
\<close>

theorem reads_never_return_password:
  "''password'' \<notin> set (body_keys (fst (get_all_users t))) \<and>
   ''password_hash'' \<notin> set (body_keys (fst (get_all_users t))) \<and>
   ''password'' \<notin> set (body_keys (fst (get_user user_id t))) \<and>
   ''password_hash'' \<notin> set (body_keys (fst (get_user user_id t))) \<and>
   ''password'' \<notin> set (body_keys (fst (search_users q t))) \<and>
   ''password_hash'' \<notin> set (body_keys (fst (search_users q t)))"
  using get_all_users_keys [of "''password''" t] get_all_users_keys [of "''password_hash''" t]
    get_user_keys [of "''password''" user_id t] get_user_keys [of "''password_hash''" user_id t]
    search_users_keys [of "''password''" q t] search_users_keys [of "''password_hash''" q t]
    password_not_a_key
  by blast

theorem reads_never_return_password_witness:
  "''password'' \<notin> set (body_keys (fst (get_all_users sample_table))) \<and>
   ''password_hash'' \<notin> set (body_keys (fst (get_all_users sample_table))) \<and>
   ''password'' \<notin> set (body_keys (fst (get_user 2 sample_table))) \<and>
   ''password_hash'' \<notin> set (body_keys (fst (get_user 2 sample_table))) \<and>
   ''password'' \<notin> set (body_keys (fst (search_users (Some ''oh'') sample_table))) \<and>
   ''password_hash'' \<notin> set (body_keys (fst (search_users (Some ''oh'') sample_table)))"
  by (rule reads_never_return_password)

section \<open>Login\<close>

lemma map_of_Some_nonempty: "map_of d k = Some v \<Longrightarrow> d \<noteq> []"
  by auto

lemma login_absent_email:
  assumes "map_of d ''email'' = Some (JString em)" and "map_of d ''password'' = Some pw"
    and "em \<noteq> []" and "value_truthy pw"
    and "select_by_email em t = None"
  shows "login cph (Some d) t =
           (Obj [(''status'', JStr ''failed''), (''message'', JStr ''Invalid credentials'')], 401)"
  using assms map_of_Some_nonempty [OF assms(1)]
  by (simp add: login_def bind_email_def)

lemma login_check_returns_false:
  assumes "map_of d ''email'' = Some (JString em)" and "map_of d ''password'' = Some pw"
    and "em \<noteq> []" and "value_truthy pw"
    and "select_by_email em t = Some user" and "cph (row_password user) pw = Inr False"
  shows "login cph (Some d) t =
           (Obj [(''status'', JStr ''failed''), (''message'', JStr ''Invalid credentials'')], 401)"
  using assms map_of_Some_nonempty [OF assms(1)]
  by (simp add: login_def bind_email_def)

lemma login_check_raises:
  assumes "map_of d ''email'' = Some (JString em)" and "map_of d ''password'' = Some pw"
    and "em \<noteq> []" and "value_truthy pw"
    and "select_by_email em t = Some user" and "cph (row_password user) pw = Inl e"
  shows "login cph (Some d) t = (ServerErrorPage, 500)"
  using assms map_of_Some_nonempty [OF assms(1)]
  by (simp add: login_def bind_email_def)

text \<open>
  Claim C2. The claim has an absent email and a wrong password answered by the same 401.
  That holds when \<^verbatim>\<open>check_password_hash\<close> returns (the first two lemmas above), but
  \<^verbatim>\<open>login\<close> calls it only when a row has the email and catches nothing: a password
  it raises for leaves the handler, and Flask answers 500. On the seeded table the
  request with John Doe's email and the password 123, a JSON number, is answered 500,
  and the request with an email no row has and the same password is answered 401 with
  \<^verbatim>\<open>Invalid credentials\<close>.
\<close>

theorem login_existing_email_answers_500:
  "login sample_check
     (Some [(''email'', JString ''john@example.com''), (''password'', JNumber 123)]) sample_table =
     (ServerErrorPage, 500) \<and>
   login sample_check
     (Some [(''email'', JString ''nobody@example.com''), (''password'', JNumber 123)]) sample_table =
     (Obj [(''status'', JStr ''failed''), (''message'', JStr ''Invalid credentials'')], 401)"
proof -
  have present: "select_by_email ''john@example.com'' sample_table =
      Some \<lparr>row_id = 1, row_name = ''John Doe'', row_email = ''john@example.com'',
          row_password = ''a1$password123''\<rparr>"
    by (simp add: select_by_email_def sample_table_eval)
  have absent: "select_by_email ''nobody@example.com'' sample_table = None"
    by (simp add: select_by_email_def sample_table_eval)
  have 1: "login sample_check
     (Some [(''email'', JString ''john@example.com''), (''password'', JNumber 123)]) sample_table =
     (ServerErrorPage, 500)"
    by (rule login_check_raises [where pw = "JNumber 123" and e = AttributeError, OF _ _ _ _ present])
       simp_all
  have 2: "login sample_check
     (Some [(''email'', JString ''nobody@example.com''), (''password'', JNumber 123)]) sample_table =
     (Obj [(''status'', JStr ''failed''), (''message'', JStr ''Invalid credentials'')], 401)"
    by (rule login_absent_email [where pw = "JNumber 123", OF _ _ _ _ absent]) simp_all
  from 1 2 show ?thesis by (intro conjI)
qed

section \<open>Creating a user\<close>

text \<open>
  Claim C5. For every table that holds a row with some email, a create request with that
  email (and a non-empty name and password) is answered with 409 and
  \<^verbatim>\<open>User with this email already exists\<close>, and the table it leaves is the table it
  found: every row, the first user's among them, is as before.
\<close>

theorem duplicate_email_rejected:
  assumes "map_of d ''name'' = Some nm" and "map_of d ''email'' = Some em"
    and "map_of d ''password'' = Some pw"
    and "nm \<noteq> []" and "em \<noteq> []" and "pw \<noteq> []"
    and "em \<in> set (map row_email (rows t))"
  shows "create_user gph salt (Some d) t =
           ((message ''User with this email already exists'', 409), t)"
proof -
  have "list_ex (\<lambda>r. row_email r = em) (rows t)"
    using assms(7) by (auto simp: list_ex_iff)
  then have "sql_insert_user nm em (gph salt pw) t = Inl IntegrityError"
    by (simp add: sql_insert_user_def)
  with assms map_of_Some_nonempty [OF assms(1)] show ?thesis
    by (simp add: create_user_def)
qed

theorem duplicate_email_rejected_witness:
  "''john@example.com'' \<in> set (map row_email (rows sample_table)) \<and>
   create_user sample_hash ''d4''
     (Some [(''name'', ''Johnny''), (''email'', ''john@example.com''), (''password'', ''pw'')]) sample_table =
     ((message ''User with this email already exists'', 409), sample_table)"
proof -
  have m: "''john@example.com'' \<in> set (map row_email (rows sample_table))"
    by (simp add: sample_table_eval)
  have "create_user sample_hash ''d4''
     (Some [(''name'', ''Johnny''), (''email'', ''john@example.com''), (''password'', ''pw'')]) sample_table =
     ((message ''User with this email already exists'', 409), sample_table)"
    by (rule duplicate_email_rejected [where nm = "''Johnny''" and pw = "''pw''", OF _ _ _ _ _ _ m])
       simp_all
  with m show ?thesis by simp
qed

lemma find_new_row:
  assumes "\<forall>r\<in>set rs. \<not> P r" and "P x"
  shows "find P (rs @ [x]) = Some x"
  using assms by (induction rs) simp_all

text \<open>
  Claim C6. For every non-empty name, email and password, the email held by no row of
  the table: \<^verbatim>\<open>create_user\<close> answers 201 with a \<^verbatim>\<open>user_id\<close>, and
  \<^verbatim>\<open>get_user\<close> for that id on the table it left answers 200 with the dictionary of
  exactly the keys \<open>id\<close>, \<open>name\<close>, \<open>email\<close>, the name and the email being
  those of the request. The dictionary has no entry for the password.
\<close>

theorem create_then_get:
  assumes "map_of d ''name'' = Some nm" and "map_of d ''email'' = Some em"
    and "map_of d ''password'' = Some pw"
    and "nm \<noteq> []" and "em \<noteq> []" and "pw \<noteq> []"
    and "em \<notin> set (map row_email (rows t))"
  shows "\<exists>user_id t'.
           create_user gph salt (Some d) t =
             ((Obj [(''message'', JStr ''User created successfully!''), (''user_id'', JInt user_id)], 201), t') \<and>
           get_user user_id t' =
             (Obj [(''id'', JInt user_id), (''name'', JStr nm), (''email'', JStr em)], 200)"
proof -
  let ?i = "next_rowid t"
  let ?new = "\<lparr>row_id = ?i, row_name = nm, row_email = em, row_password = gph salt pw\<rparr>"
  let ?t' = "\<lparr>rows = rows t @ [?new], sqlite_sequence = ?i\<rparr>"
  have "\<not> list_ex (\<lambda>r. row_email r = em) (rows t)"
    using assms(7) by (auto simp: list_ex_iff)
  then have ins: "sql_insert_user nm em (gph salt pw) t = Inr (?i, ?t')"
    by (simp add: sql_insert_user_def Let_def)
  have c: "create_user gph salt (Some d) t =
      ((Obj [(''message'', JStr ''User created successfully!''), (''user_id'', JInt ?i)], 201), ?t')"
    using assms(1-6) map_of_Some_nonempty [OF assms(1)] ins by (simp add: create_user_def)
  have "\<forall>r\<in>set (rows t). \<not> row_id r = ?i"
    using next_rowid_gt_row [of _ t] by fastforce
  then have "find (\<lambda>r. row_id r = ?i) (rows t @ [?new]) = Some ?new"
    by (rule find_new_row) simp
  then have g: "get_user ?i ?t' = (Obj [(''id'', JInt ?i), (''name'', JStr nm), (''email'', JStr em)], 200)"
    by (simp add: get_user_def select_by_id_def row_dict_def)
  from c g show ?thesis by blast
qed

theorem create_then_get_witness:
  "''ann@example.com'' \<notin> set (map row_email (rows sample_table)) \<and>
   (\<exists>user_id t'.
      create_user sample_hash ''d4'' ann_request sample_table =
        ((Obj [(''message'', JStr ''User created successfully!''), (''user_id'', JInt user_id)], 201), t') \<and>
      get_user user_id t' =
        (Obj [(''id'', JInt user_id), (''name'', JStr ''Ann Lee''), (''email'', JStr ''ann@example.com'')], 200))"
proof -
  have n: "''ann@example.com'' \<notin> set (map row_email (rows sample_table))"
    by (simp add: sample_table_eval)
  have "\<exists>user_id t'.
      create_user sample_hash ''d4'' ann_request sample_table =
        ((Obj [(''message'', JStr ''User created successfully!''), (''user_id'', JInt user_id)], 201), t') \<and>
      get_user user_id t' =
        (Obj [(''id'', JInt user_id), (''name'', JStr ''Ann Lee''), (''email'', JStr ''ann@example.com'')], 200)"
    unfolding ann_request_def
    by (rule create_then_get [where pw = "''hunter2''", OF _ _ _ _ _ _ n]) simp_all
  with n show ?thesis by simp
qed

section \<open>Listing and searching\<close>

text \<open>
  Claim C7. For every reachable table, \<^verbatim>\<open>get_all_users\<close> answers 200 with the list
  of the dictionaries \<open>{id, name, email}\<close> of all rows, one per row and in the order of
  the rows, and the ids of the rows ascend strictly; on a table without rows the answer is
  the empty list with 200, not an error.
\<close>

theorem get_all_users_ordered:
  assumes "reachable gph t"
  shows "get_all_users t = (Arr (map row_dict (rows t)), 200) \<and>
         sorted_wrt (<) (map row_id (rows t)) \<and>
         (rows t = [] \<longrightarrow> get_all_users t = (Arr [], 200))"
  using reachable_table_inv [OF assms]
  by (simp add: get_all_users_def table_inv_def)

theorem get_all_users_ordered_witness:
  "reachable sample_hash sample_table \<and>
   get_all_users sample_table =
     (Arr [[(''id'', JInt 1), (''name'', JStr ''John Doe''), (''email'', JStr ''john@example.com'')],
           [(''id'', JInt 2), (''name'', JStr ''Jane Smith''), (''email'', JStr ''jane@example.com'')],
           [(''id'', JInt 3), (''name'', JStr ''Bob Johnson''), (''email'', JStr ''bob@example.com'')]], 200) \<and>
   sorted_wrt (<) (map row_id (rows sample_table)) \<and>
   reachable sample_hash \<lparr>rows = [], sqlite_sequence = 3\<rparr> \<and>
   get_all_users \<lparr>rows = [], sqlite_sequence = 3\<rparr> = (Arr [], 200)"
proof -
  have full: "get_all_users sample_table =
     (Arr [[(''id'', JInt 1), (''name'', JStr ''John Doe''), (''email'', JStr ''john@example.com'')],
           [(''id'', JInt 2), (''name'', JStr ''Jane Smith''), (''email'', JStr ''jane@example.com'')],
           [(''id'', JInt 3), (''name'', JStr ''Bob Johnson''), (''email'', JStr ''bob@example.com'')]], 200) \<and>
   sorted_wrt (<) (map row_id (rows sample_table))"
    using get_all_users_ordered [OF reachable_sample_table]
    by (simp add: sample_table_eval row_dict_def)
  have d1: "delete_user 1 sample_table =
      ((message ''User deleted successfully'', 200),
       \<lparr>rows = drop 1 (rows sample_table), sqlite_sequence = 3\<rparr>)"
    by (simp add: delete_user_def sql_delete_user_def sample_table_eval)
  have d2: "delete_user 2 \<lparr>rows = drop 1 (rows sample_table), sqlite_sequence = 3\<rparr> =
      ((message ''User deleted successfully'', 200),
       \<lparr>rows = drop 2 (rows sample_table), sqlite_sequence = 3\<rparr>)"
    by (simp add: delete_user_def sql_delete_user_def sample_table_eval)
  have d3: "delete_user 3 \<lparr>rows = drop 2 (rows sample_table), sqlite_sequence = 3\<rparr> =
      ((message ''User deleted successfully'', 200), \<lparr>rows = [], sqlite_sequence = 3\<rparr>)"
    by (simp add: delete_user_def sql_delete_user_def sample_table_eval)
  have r: "reachable sample_hash \<lparr>rows = [], sqlite_sequence = 3\<rparr>"
    by (rule reachable.deleted
        [OF reachable.deleted [OF reachable.deleted [OF reachable_sample_table d1] d2] d3])
  from get_all_users_ordered [OF r]
  have e: "get_all_users \<lparr>rows = [], sqlite_sequence = 3\<rparr> = (Arr [], 200)"
    by simp
  from full reachable_sample_table r e show ?thesis by (intro conjI) simp_all
qed

text \<open>
  Claim C8. On the table the bootstrap leaves, whatever the file system held before and
  whatever the salts, \<^verbatim>\<open>search_users\<close> for \<open>oh\<close> answers 200 with exactly the
  dictionaries of John Doe (id 1) and Bob Johnson (id 3), in this order.
\<close>

theorem search_oh_on_seeded:
  "\<exists>t. init_db_command gph (s1, s2, s3) fs = Inr (Some (Some t)) \<and>
       search_users (Some ''oh'') t =
         (Arr [[(''id'', JInt 1), (''name'', JStr ''John Doe''), (''email'', JStr ''john@example.com'')],
               [(''id'', JInt 3), (''name'', JStr ''Bob Johnson''), (''email'', JStr ''bob@example.com'')]], 200)"
proof -
  have short: "\<not> like_pattern_too_complex ''%oh%''"
    by (simp add: like_pattern_too_complex_def)
  have m: "sql_like ''%oh%'' ''John Doe''" "\<not> sql_like ''%oh%'' ''Jane Smith''"
    "sql_like ''%oh%'' ''Bob Johnson''"
    by (simp_all add: sql_like_def utf8_lead_def like_char_eq_def sqlite3UpperToLower_def)
  have "search_users (Some ''oh'') (seeded gph (s1, s2, s3)) =
         (Arr [[(''id'', JInt 1), (''name'', JStr ''John Doe''), (''email'', JStr ''john@example.com'')],
               [(''id'', JInt 3), (''name'', JStr ''Bob Johnson''), (''email'', JStr ''bob@example.com'')]], 200)"
    using short m by (simp add: search_users_def seeded_def row_dict_def)
  with init_db_command_seeded [of gph s1 s2 s3 fs] show ?thesis by blast
qed

theorem search_oh_on_seeded_witness:
  "\<exists>t. init_db_command sample_hash (''a1'', ''b2'', ''c3'') None = Inr (Some (Some t)) \<and>
       search_users (Some ''oh'') t =
         (Arr [[(''id'', JInt 1), (''name'', JStr ''John Doe''), (''email'', JStr ''john@example.com'')],
               [(''id'', JInt 3), (''name'', JStr ''Bob Johnson''), (''email'', JStr ''bob@example.com'')]], 200)"
  by (rule search_oh_on_seeded)

lemma patternCompare_percent: "patternCompare [''%''] s"
  by (induction s) simp_all

lemma patternCompare_percent_prefix: "patternCompare ps s \<Longrightarrow> patternCompare (''%'' # ps) s"
  by (cases s) simp_all

lemma patternCompare_any: "patternCompare [''%'', ''%'', ''%''] s"
  by (intro patternCompare_percent_prefix patternCompare_percent)

lemma patternCompare_one: "patternCompare [''%'', ''_'', ''%''] s = (s \<noteq> [])"
proof (cases s)
  case Nil
  then show ?thesis by simp
next
  case (Cons c cs)
  have "patternCompare [''_'', ''%''] (c # cs)"
    using patternCompare_percent [of cs] by simp
  then have "patternCompare [''%'', ''_'', ''%''] (c # cs)" by (rule patternCompare_percent_prefix)
  with Cons show ?thesis by simp
qed

lemma utf8_chars_nonempty: "(utf8_chars s \<noteq> []) = (case s of [] \<Rightarrow> False | c # cs \<Rightarrow> c \<noteq> CHR 0x00)"
  by (cases s) simp_all

lemma sql_like_any: "sql_like ''%%%'' s"
proof -
  have "utf8_chars ''%%%'' = [''%'', ''%'', ''%'']" by (simp add: utf8_lead_def)
  then show ?thesis by (simp only: sql_like_def patternCompare_any)
qed

lemma sql_like_one: "sql_like ''%_%'' s = (case s of [] \<Rightarrow> False | c # cs \<Rightarrow> c \<noteq> CHR 0x00)"
proof -
  have "utf8_chars ''%_%'' = [''%'', ''_'', ''%'']" by (simp add: utf8_lead_def)
  then show ?thesis by (simp only: sql_like_def patternCompare_one utf8_chars_nonempty)
qed

lemma short_patterns:
  "\<not> like_pattern_too_complex ''%%%''" "\<not> like_pattern_too_complex ''%_%''"
  by (simp_all add: like_pattern_too_complex_def)

text \<open>
  Claim C9, as amended. The query parameter goes unescaped between the two \<open>%\<close> of
  the pattern, so a \<open>%\<close> or a \<open>_\<close> in it is a wildcard. On every table a search for
  \<open>%\<close> returns every user, as \<^verbatim>\<open>get_all_users\<close> does, and a search for \<open>_\<close>
  returns exactly the users whose name has a first character other than NUL, whether or
  not the name contains the character searched for: \<^verbatim>\<open>LIKE\<close> reads a name up to its
  first NUL, so \<open>_\<close> finds no character in a name that begins with one.
\<close>

theorem like_wildcards_unescaped:
  "search_users (Some ''%'') t = get_all_users t \<and>
   search_users (Some ''_'') t =
     (Arr (map row_dict
        (filter (\<lambda>r. case row_name r of [] \<Rightarrow> False | c # cs \<Rightarrow> c \<noteq> CHR 0x00) (rows t))), 200)"
proof -
  have p: "search_users (Some ''%'') t =
      (Arr (map row_dict (filter (\<lambda>r. sql_like ''%%%'' (row_name r)) (rows t))), 200)"
    using short_patterns(1) by (simp add: search_users_def)
  have u: "search_users (Some ''_'') t =
      (Arr (map row_dict (filter (\<lambda>r. sql_like ''%_%'' (row_name r)) (rows t))), 200)"
    using short_patterns(2) by (simp add: search_users_def)
  have "search_users (Some ''%'') t = get_all_users t"
    unfolding p by (simp add: sql_like_any get_all_users_def)
  moreover have "search_users (Some ''_'') t =
     (Arr (map row_dict
        (filter (\<lambda>r. case row_name r of [] \<Rightarrow> False | c # cs \<Rightarrow> c \<noteq> CHR 0x00) (rows t))), 200)"
    unfolding u by (simp only: sql_like_one)
  ultimately show ?thesis by (intro conjI)
qed

theorem like_wildcards_unescaped_witness:
  "search_users (Some ''%'') sample_table =
     (Arr [[(''id'', JInt 1), (''name'', JStr ''John Doe''), (''email'', JStr ''john@example.com'')],
           [(''id'', JInt 2), (''name'', JStr ''Jane Smith''), (''email'', JStr ''jane@example.com'')],
           [(''id'', JInt 3), (''name'', JStr ''Bob Johnson''), (''email'', JStr ''bob@example.com'')]], 200) \<and>
   search_users (Some ''_'') sample_table =
     (Arr [[(''id'', JInt 1), (''name'', JStr ''John Doe''), (''email'', JStr ''john@example.com'')],
           [(''id'', JInt 2), (''name'', JStr ''Jane Smith''), (''email'', JStr ''jane@example.com'')],
           [(''id'', JInt 3), (''name'', JStr ''Bob Johnson''), (''email'', JStr ''bob@example.com'')]], 200) \<and>
   list_all (\<lambda>r. CHR ''%'' \<notin> set (row_name r) \<and> CHR ''_'' \<notin> set (row_name r)) (rows sample_table)"
proof -
  have n: "list_all (\<lambda>r. CHR ''%'' \<notin> set (row_name r) \<and> CHR ''_'' \<notin> set (row_name r)) (rows sample_table)"
    by (simp add: sample_table_eval)
  from like_wildcards_unescaped [of sample_table] n show ?thesis
    by (simp add: sample_table_eval get_all_users_def row_dict_def)
qed

text \<open>
  The claim as stated fails for \<open>_\<close>: the table that holds only a user named by the
  one character NUL is reachable and not empty, the name has no \<open>_\<close>, and the search
  for \<open>_\<close> returns no user.
\<close>

theorem underscore_misses_nul_name_counterexample:
  "reachable sample_hash sample_table_nul \<and>
   length (rows sample_table_nul) = 1 \<and>
   list_all (\<lambda>r. CHR ''_'' \<notin> set (row_name r)) (rows sample_table_nul) \<and>
   search_users (Some ''_'') sample_table_nul = (Arr [], 200)"
proof -
  let ?nul = "\<lparr>row_id = 4, row_name = [CHR 0x00], row_email = ''nul@example.com'',
          row_password = sample_hash ''d4'' ''hunter2''\<rparr>"
  have c: "create_user sample_hash ''d4'' nul_request sample_table =
      ((Obj [(''message'', JStr ''User created successfully!''), (''user_id'', JInt 4)], 201),
       \<lparr>rows = rows sample_table @ [?nul], sqlite_sequence = 4\<rparr>)"
    by (simp add: create_user_def nul_request_def sql_insert_user_def next_rowid_def sample_table_eval)
  have d1: "delete_user 1 \<lparr>rows = rows sample_table @ [?nul], sqlite_sequence = 4\<rparr> =
      ((message ''User deleted successfully'', 200),
       \<lparr>rows = drop 1 (rows sample_table) @ [?nul], sqlite_sequence = 4\<rparr>)"
    by (simp add: delete_user_def sql_delete_user_def sample_table_eval)
  have d2: "delete_user 2 \<lparr>rows = drop 1 (rows sample_table) @ [?nul], sqlite_sequence = 4\<rparr> =
      ((message ''User deleted successfully'', 200),
       \<lparr>rows = drop 2 (rows sample_table) @ [?nul], sqlite_sequence = 4\<rparr>)"
    by (simp add: delete_user_def sql_delete_user_def sample_table_eval)
  have d3: "delete_user 3 \<lparr>rows = drop 2 (rows sample_table) @ [?nul], sqlite_sequence = 4\<rparr> =
      ((message ''User deleted successfully'', 200), sample_table_nul)"
    by (simp add: delete_user_def sql_delete_user_def sample_table_eval sample_table_nul_def)
  have r: "reachable sample_hash sample_table_nul"
    by (rule reachable.deleted [OF reachable.deleted [OF reachable.deleted
          [OF reachable.created [OF reachable_sample_table c] d1] d2] d3])
  have l: "length (rows sample_table_nul) = 1"
    by (simp add: sample_table_nul_def)
  have n: "list_all (\<lambda>r. CHR ''_'' \<notin> set (row_name r)) (rows sample_table_nul)"
    by (simp add: sample_table_nul_def)
  have m: "\<not> sql_like ''%_%'' [CHR 0x00]"
    by (simp add: sql_like_def utf8_lead_def)
  have short: "\<not> like_pattern_too_complex ''%_%''"
    by (simp add: like_pattern_too_complex_def)
  have s: "search_users (Some ''_'') sample_table_nul = (Arr [], 200)"
    using m short by (simp add: search_users_def sample_table_nul_def)
  from r l n s show ?thesis by (intro conjI)
qed

section \<open>Updating a user\<close>

lemma find_Some_filter_nonempty: "find P xs = Some x \<Longrightarrow> filter P xs \<noteq> []"
  by (induction xs) (auto split: if_splits)

lemma email_only_conflict:
  assumes "select_by_id user_id t = Some u"
  shows "list_ex (\<lambda>r. row_id r = user_id \<and>
            list_ex (\<lambda>r'. row_id r' \<noteq> user_id \<and> row_email r' = row_email (fold assign [(''email'', em)] r)) (rows t))
          (rows t) =
         list_ex (\<lambda>r'. row_id r' \<noteq> user_id \<and> row_email r' = em) (rows t)"
proof -
  from assms have "u \<in> set (rows t)" and "row_id u = user_id"
    by (auto simp: select_by_id_def find_Some_iff)
  then show ?thesis
    by (auto simp: list_ex_iff)
qed

lemma update_user_email_only:
  assumes "map_of d ''name'' = None \<or> map_of d ''name'' = Some []"
    and "map_of d ''email'' = Some em" and "em \<noteq> []"
    and "select_by_id user_id t = Some u"
  shows "update_user user_id (Some d) t =
           (if list_ex (\<lambda>r. row_id r \<noteq> user_id \<and> row_email r = em) (rows t)
            then ((message ''User with this email already exists'', 409), t)
            else ((message ''User updated successfully'', 200),
                  t\<lparr>rows := map (\<lambda>r. if row_id r = user_id then r\<lparr>row_email := em\<rparr> else r) (rows t)\<rparr>))"
proof -
  have d: "d \<noteq> []" using assms(2) by (rule map_of_Some_nonempty)
  have fields: "set_field ''name'' (map_of d ''name'') @ set_field ''email'' (map_of d ''email'') = [(''email'', em)]"
    using assms(1-3) by auto
  have hit: "filter (\<lambda>r. row_id r = user_id) (rows t) \<noteq> []"
    using assms(4) unfolding select_by_id_def by (rule find_Some_filter_nonempty)
  have upd: "sql_update_user [(''email'', em)] user_id t =
      (if list_ex (\<lambda>r. row_id r \<noteq> user_id \<and> row_email r = em) (rows t) then Inl IntegrityError
       else Inr (length (filter (\<lambda>r. row_id r = user_id) (rows t)),
                 t\<lparr>rows := map (\<lambda>r. if row_id r = user_id then r\<lparr>row_email := em\<rparr> else r) (rows t)\<rparr>))"
    unfolding sql_update_user_def email_only_conflict [OF assms(4)] by simp
  have tr: "truthy (map_of d ''name'') \<or> truthy (map_of d ''email'')"
    using assms(2,3) by simp
  show ?thesis
    unfolding update_user_def option.case Let_def fields upd
    using d tr hit by simp
qed

text \<open>
  Claim C10. \<^verbatim>\<open>update_user\<close> treats a field that is the empty string as absent. For
  an id that a row has and a body whose name is the empty string and whose email \<open>em\<close>
  is not empty, the handler does what it does for the body that has the email alone: the
  statement sets only the email, so the answer is 200 and the row with this id gets the
  email \<open>em\<close>, unless another row holds \<open>em\<close>, in which case the answer is 409 and
  the table is unchanged; either way every name is as before. A body whose name and email
  are both the empty string is answered 400 and the table is unchanged.
\<close>

theorem update_empty_name_as_absent:
  assumes "map_of d ''name'' = Some []" and "map_of d ''email'' = Some em" and "em \<noteq> []"
    and "select_by_id user_id t = Some u"
    and "map_of d' ''name'' = Some []" and "map_of d' ''email'' = Some []"
  shows "update_user user_id (Some d) t = update_user user_id (Some [(''email'', em)]) t \<and>
         update_user user_id (Some d) t =
           (if list_ex (\<lambda>r. row_id r \<noteq> user_id \<and> row_email r = em) (rows t)
            then ((message ''User with this email already exists'', 409), t)
            else ((message ''User updated successfully'', 200),
                  t\<lparr>rows := map (\<lambda>r. if row_id r = user_id then r\<lparr>row_email := em\<rparr> else r) (rows t)\<rparr>)) \<and>
         map row_name (rows (snd (update_user user_id (Some d) t))) = map row_name (rows t) \<and>
         update_user user_id (Some d') t = ((message ''No data provided for update'', 400), t)"
proof -
  have full: "update_user user_id (Some d) t =
           (if list_ex (\<lambda>r. row_id r \<noteq> user_id \<and> row_email r = em) (rows t)
            then ((message ''User with this email already exists'', 409), t)
            else ((message ''User updated successfully'', 200),
                  t\<lparr>rows := map (\<lambda>r. if row_id r = user_id then r\<lparr>row_email := em\<rparr> else r) (rows t)\<rparr>))"
    using assms(1-4) by (intro update_user_email_only) simp_all
  have "update_user user_id (Some [(''email'', em)]) t =
           (if list_ex (\<lambda>r. row_id r \<noteq> user_id \<and> row_email r = em) (rows t)
            then ((message ''User with this email already exists'', 409), t)
            else ((message ''User updated successfully'', 200),
                  t\<lparr>rows := map (\<lambda>r. if row_id r = user_id then r\<lparr>row_email := em\<rparr> else r) (rows t)\<rparr>))"
    using assms(3,4) by (intro update_user_email_only) simp_all
  with full have same: "update_user user_id (Some d) t = update_user user_id (Some [(''email'', em)]) t"
    by simp
  have names: "map row_name (rows (snd (update_user user_id (Some d) t))) = map row_name (rows t)"
    unfolding full by (simp add: comp_def cong: map_cong)
  have d': "d' \<noteq> []" using assms(5) by (rule map_of_Some_nonempty)
  have none: "update_user user_id (Some d') t = ((message ''No data provided for update'', 400), t)"
    using assms(5,6) d' by (simp add: update_user_def)
  from same full names none show ?thesis by (intro conjI)
qed

theorem update_empty_name_as_absent_witness:
  "select_by_id 1 sample_table \<noteq> None \<and>
   update_user 1 (Some [(''name'', []), (''email'', ''johnny@example.com'')]) sample_table =
     ((message ''User updated successfully'', 200),
      \<lparr>rows =
         [\<lparr>row_id = 1, row_name = ''John Doe'', row_email = ''johnny@example.com'',
           row_password = ''a1$password123''\<rparr>,
          \<lparr>row_id = 2, row_name = ''Jane Smith'', row_email = ''jane@example.com'',
           row_password = ''b2$secret456''\<rparr>,
          \<lparr>row_id = 3, row_name = ''Bob Johnson'', row_email = ''bob@example.com'',
           row_password = ''c3$qwerty789''\<rparr>],
       sqlite_sequence = 3\<rparr>) \<and>
   update_user 1 (Some [(''name'', []), (''email'', [])]) sample_table =
     ((message ''No data provided for update'', 400), sample_table)"
proof -
  let ?d = "[(''name'', []), (''email'', ''johnny@example.com'')]"
  let ?d' = "[(''name'', []), (''email'', [])] :: (string \<times> string) list"
  have s: "select_by_id 1 sample_table =
      Some \<lparr>row_id = 1, row_name = ''John Doe'', row_email = ''john@example.com'',
          row_password = ''a1$password123''\<rparr>"
    by (simp add: select_by_id_def sample_table_eval)
  have a1: "map_of ?d ''name'' = Some []" by simp
  have a2: "map_of ?d ''email'' = Some ''johnny@example.com''" by simp
  have a3: "''johnny@example.com'' \<noteq> []" by simp
  have a5: "map_of ?d' ''name'' = Some []" by simp
  have a6: "map_of ?d' ''email'' = Some []" by simp
  note th = update_empty_name_as_absent [OF a1 a2 a3 s a5 a6]
  have free: "\<not> list_ex (\<lambda>r. row_id r \<noteq> 1 \<and> row_email r = ''johnny@example.com'') (rows sample_table)"
    by (simp add: sample_table_eval)
  from th have "update_user 1 (Some ?d) sample_table =
           (if list_ex (\<lambda>r. row_id r \<noteq> 1 \<and> row_email r = ''johnny@example.com'') (rows sample_table)
            then ((message ''User with this email already exists'', 409), sample_table)
            else ((message ''User updated successfully'', 200),
                  sample_table\<lparr>rows :=
                    map (\<lambda>r. if row_id r = 1 then r\<lparr>row_email := ''johnny@example.com''\<rparr> else r)
                      (rows sample_table)\<rparr>))"
    by blast
  with free have u: "update_user 1 (Some ?d) sample_table =
      ((message ''User updated successfully'', 200),
       sample_table\<lparr>rows :=
         map (\<lambda>r. if row_id r = 1 then r\<lparr>row_email := ''johnny@example.com''\<rparr> else r)
           (rows sample_table)\<rparr>)"
    by (simp only: if_False)
  have tbl: "sample_table\<lparr>rows :=
         map (\<lambda>r. if row_id r = 1 then r\<lparr>row_email := ''johnny@example.com''\<rparr> else r)
           (rows sample_table)\<rparr> =
      \<lparr>rows =
         [\<lparr>row_id = 1, row_name = ''John Doe'', row_email = ''johnny@example.com'',
           row_password = ''a1$password123''\<rparr>,
          \<lparr>row_id = 2, row_name = ''Jane Smith'', row_email = ''jane@example.com'',
           row_password = ''b2$secret456''\<rparr>,
          \<lparr>row_id = 3, row_name = ''Bob Johnson'', row_email = ''bob@example.com'',
           row_password = ''c3$qwerty789''\<rparr>],
       sqlite_sequence = 3\<rparr>"
    by (simp add: sample_table_eval)
  from th have n: "update_user 1 (Some ?d') sample_table =
      ((message ''No data provided for update'', 400), sample_table)"
    by blast
  have e: "select_by_id 1 sample_table \<noteq> None" using s by simp
  from e u [unfolded tbl] n show ?thesis by (intro conjI)
qed

lemma filter_empty_find_None: "filter P xs = [] \<Longrightarrow> find P xs = None"
  by (induction xs) (auto split: if_splits)

lemma sql_update_zero_rows:
  assumes "sql_update_user fs i t = Inr (0, t')"
  shows "select_by_id i t' = None"
proof -
  from assms have none: "filter (\<lambda>r. row_id r = i) (rows t) = []"
    and t': "t' = t\<lparr>rows := map (\<lambda>r. if row_id r = i then fold assign fs r else r) (rows t)\<rparr>"
    by (auto simp: sql_update_user_def split: if_splits)
  from none have "\<forall>r\<in>set (rows t). row_id r \<noteq> i"
    by (simp add: filter_empty_conv)
  then have "map (\<lambda>r. if row_id r = i then fold assign fs r else r) (rows t) = rows t"
    by (simp add: map_idI)
  with none show ?thesis
    by (simp add: t' select_by_id_def filter_empty_find_None)
qed

lemma no_changes_message_differs:
  "message ''Invalid JSON'' \<noteq> message ''User found but no changes made (data was identical)''"
  "message ''No data provided for update'' \<noteq> message ''User found but no changes made (data was identical)''"
  "message ''No valid fields to update'' \<noteq> message ''User found but no changes made (data was identical)''"
  "message ''User not found'' \<noteq> message ''User found but no changes made (data was identical)''"
  "message ''User updated successfully'' \<noteq> message ''User found but no changes made (data was identical)''"
  "message ''User with this email already exists'' \<noteq> message ''User found but no changes made (data was identical)''"
  "message ''An internal server error occurred'' \<noteq> message ''User found but no changes made (data was identical)''"
  by (simp_all add: message_def)

text \<open>
  The answer \<^verbatim>\<open>User found but no changes made (data was identical)\<close> is never
  given: the statement's rowcount is zero only when no row has the id, and then the
  second query finds none either.
\<close>

lemma update_user_never_no_changes:
  "fst (fst (update_user user_id data t)) \<noteq>
     message ''User found but no changes made (data was identical)''"
proof (cases data)
  case None
  then show ?thesis by (simp add: update_user_def no_changes_message_differs)
next
  case (Some d)
  let ?fs = "set_field ''name'' (map_of d ''name'') @ set_field ''email'' (map_of d ''email'')"
  show ?thesis
  proof (cases "sql_update_user ?fs user_id t")
    case (Inl e)
    with Some show ?thesis
      by (cases e) (simp_all add: update_user_def Let_def no_changes_message_differs)
  next
    case (Inr res)
    obtain rowcount t' where res: "res = (rowcount, t')" by (cases res)
    show ?thesis
    proof (cases "rowcount = 0")
      case True
      with Inr res have "select_by_id user_id t' = None"
        by (intro sql_update_zero_rows [of ?fs user_id t]) simp
      with Some Inr res True show ?thesis
        by (simp add: update_user_def Let_def no_changes_message_differs)
    next
      case False
      with Some Inr res show ?thesis
        by (simp add: update_user_def Let_def no_changes_message_differs)
    qed
  qed
qed

text \<open>
  Claim C4. The claim has \<^verbatim>\<open>update_user\<close> answer 200 with
  \<^verbatim>\<open>User found but no changes made (data was identical)\<close> when the row exists and
  the submitted values equal the stored ones, apart from 404 when no row has the id. The
  code tells the two apart by \<^verbatim>\<open>cursor.rowcount == 0\<close>, but SQLite counts the row the
  statement rewrote although its values did not change: on the seeded table the request
  for id 1 with John Doe's own name and email is answered 200 with
  \<^verbatim>\<open>User updated successfully\<close>, and the table is unchanged.
\<close>

theorem update_identical_values_reports_updated:
  "update_user 1 (Some [(''name'', ''John Doe''), (''email'', ''john@example.com'')])
     (seeded gph (s1, s2, s3)) =
   ((message ''User updated successfully'', 200), seeded gph (s1, s2, s3))"
  by (simp add: update_user_def sql_update_user_def select_by_id_def seeded_def)

section \<open>The bootstrap\<close>

text \<open>
  Claim C3, as amended. Whatever the file system holds (no file, a database without the
  table, a table with any rows), \<^verbatim>\<open>init_db_command\<close> returns without an exception and
  leaves the table of exactly the three sample users with the ids 1, 2, 3, their
  passwords hashed with the salts of this run; so does the script init_db.py. The rows
  the table held before are discarded with the file.
\<close>

theorem bootstrap_always_reseeds:
  "init_db_command gph (s1, s2, s3) fs = Inr (Some (Some (seeded gph (s1, s2, s3)))) \<and>
   init_db gph (s1, s2, s3) fs = Inr (Some (Some (seeded gph (s1, s2, s3)))) \<and>
   map row_id (rows (seeded gph (s1, s2, s3))) = [1, 2, 3] \<and>
   map row_name (rows (seeded gph (s1, s2, s3))) = [''John Doe'', ''Jane Smith'', ''Bob Johnson'']"
  by (simp add: init_db_def init_db_command_seeded) (simp add: seeded_def)

theorem bootstrap_always_reseeds_witness:
  "init_db_command sample_hash (''a1'', ''b2'', ''c3'') (Some (Some sample_table_ann)) =
     Inr (Some (Some sample_table))"
  using bootstrap_always_reseeds [of sample_hash "''a1''" "''b2''" "''c3''" "Some (Some sample_table_ann)"]
  by (simp add: sample_table_def sample_salts_def)

text \<open>
  The claim as stated fails: after the bootstrap and one \<^verbatim>\<open>create_user\<close> the table
  has four rows; a second bootstrap leaves three, and the row of the created user is gone.
\<close>

theorem bootstrap_discards_rows_counterexample:
  "create_user sample_hash ''d4'' ann_request sample_table =
     ((Obj [(''message'', JStr ''User created successfully!''), (''user_id'', JInt 4)], 201),
      sample_table_ann) \<and>
   length (rows sample_table_ann) = 4 \<and>
   init_db_command sample_hash sample_salts (Some (Some sample_table_ann)) =
     Inr (Some (Some sample_table)) \<and>
   length (rows sample_table) = 3 \<and>
   ''ann@example.com'' \<in> set (map row_email (rows sample_table_ann)) \<and>
   ''ann@example.com'' \<notin> set (map row_email (rows sample_table))"
proof -
  have t: "sample_table = seeded sample_hash (''a1'', ''b2'', ''c3'')"
    by (simp add: sample_table_def sample_salts_def)
  have c: "create_user sample_hash ''d4'' ann_request sample_table =
     ((Obj [(''message'', JStr ''User created successfully!''), (''user_id'', JInt 4)], 201),
      sample_table_ann)"
    by (simp add: create_user_def ann_request_def sql_insert_user_def next_rowid_def
        sample_table_ann_def t seeded_def)
  have i: "init_db_command sample_hash sample_salts (Some (Some sample_table_ann)) =
     Inr (Some (Some sample_table))"
    unfolding sample_salts_def t by (rule init_db_command_seeded)
  have l: "length (rows sample_table_ann) = 4" "length (rows sample_table) = 3"
    by (simp_all add: sample_table_ann_def t seeded_def)
  have m: "''ann@example.com'' \<in> set (map row_email (rows sample_table_ann))"
    "''ann@example.com'' \<notin> set (map row_email (rows sample_table))"
    by (simp_all add: sample_table_ann_def t seeded_def)
  from c i l m show ?thesis by (intro conjI)
qed

end
